theory Spec2Isabelle
  imports Complex_Main
begin

section \<open>Conventions of the embedding\<close>

text \<open>
  The repository is four independent Python scripts. Each reads CSV files, evaluates
  closed-form formulas over Python floats and writes a CSV file or a plot.

  \<^item> A Python \<open>float\<close> is modelled by a real number: every formula is
    evaluated in exact arithmetic. IEEE-754 rounding, overflow, \<open>inf\<close> and
    \<open>nan\<close> are outside the model, so every statement below is a statement
    about the values the formulas denote, not about their last binary digit.
  \<^item> A Python \<open>int\<close> is an \<open>int\<close>; mixed arithmetic converts it
    with \<open>of_int\<close> / \<open>of_nat\<close>, as Python does.
  \<^item> A Python \<open>str\<close> is a \<open>string\<close>. Text the scripts inspect is
    taken to be ASCII; the non-ASCII column names and dictionary keys of the scripts are
    written as their UTF-8 bytes and only ever compared for equality.
  \<^item> An exception is a value of \<open>py_error\<close>; a computation that can raise
    returns \<open>py_error + 'a\<close>, with \<open>Inl\<close> for the exception.
\<close>

datatype py_error =
    ValueError | KeyError | TypeError | AttributeError
  | IndexError | StopIteration | ZeroDivisionError

text \<open>Python's \<open>a / b\<close> on floats raises on a zero divisor.\<close>

definition truediv :: "real \<Rightarrow> real \<Rightarrow> py_error + real" where
  "truediv a b = (if b = 0 then Inl ZeroDivisionError else Inr (a / b))"

text \<open>\<open>sum(xs)\<close> starts from 0 and adds from the left.\<close>

definition py_sum :: "real list \<Rightarrow> real" where
  "py_sum xs = foldl (+) 0 xs"

text \<open>\<open>max(a, b)\<close> keeps its first argument unless the second is strictly larger.\<close>

definition py_max :: "real \<Rightarrow> real \<Rightarrow> real" where
  "py_max a b = (if b > a then b else a)"

text \<open>\<open>str.lower\<close> on ASCII text and \<open>str.startswith\<close>.\<close>

definition lower_char :: "char \<Rightarrow> char" where
  "lower_char c =
     (let n = (of_char c :: nat) in if 65 \<le> n \<and> n \<le> 90 then char_of (n + 32) else c)"

definition lower :: "string \<Rightarrow> string" where
  "lower s = map lower_char s"

definition startswith :: "string \<Rightarrow> string \<Rightarrow> bool" where
  "startswith s p = (take (length p) s = p)"




text \<open>Sequencing of computations that can raise: the first exception wins.\<close>

definition raise_or :: "py_error + 'a \<Rightarrow> ('a \<Rightarrow> py_error + 'b) \<Rightarrow> py_error + 'b" where
  "raise_or r f = (case r of Inl e \<Rightarrow> Inl e | Inr v \<Rightarrow> f v)"


section \<open>Reading CSV files\<close>

text \<open>
  \<open>csv.DictReader\<close> yields one dictionary per data row, from column name to
  cell text; a row shorter than the header has \<open>None\<close> for its missing cells.
  The model starts from these dictionaries: tokenising the file is the \<open>csv\<close>
  module's work. \<open>csv.reader\<close> yields each row as a list of cell texts.

  \<open>float(s)\<close> is Python's built-in parser. Its grammar is not part of the
  repository, so every loader takes it as the parameter \<open>pf\<close>:
  \<open>pf s = None\<close> where \<open>float(s)\<close> raises \<open>ValueError\<close>
  (a malformed numeric field), \<open>pf s = Some r\<close> where it returns \<open>r\<close>.
\<close>

type_synonym dict_row = "string \<rightharpoonup> string option"

type_synonym float_parser = "string \<Rightarrow> real option"

text \<open>\<open>row[col]\<close>\<close>

definition getitem :: "dict_row \<Rightarrow> string \<Rightarrow> py_error + string option" where
  "getitem row col = (case row col of None \<Rightarrow> Inl KeyError | Some v \<Rightarrow> Inr v)"

text \<open>\<open>float(v)\<close> for a cell \<open>v\<close> that is a text or \<open>None\<close>.\<close>

definition to_float :: "float_parser \<Rightarrow> string option \<Rightarrow> py_error + real" where
  "to_float pf v =
     (case v of
        None \<Rightarrow> Inl TypeError
      | Some s \<Rightarrow> (case pf s of None \<Rightarrow> Inl ValueError | Some r \<Rightarrow> Inr r))"


text \<open>\<open>float(row[col])\<close>\<close>

definition float_field :: "float_parser \<Rightarrow> dict_row \<Rightarrow> string \<Rightarrow> py_error + real" where
  "float_field pf row col = raise_or (getitem row col) (to_float pf)"










definition col_capacity_per_year :: string where
  "col_capacity_per_year =
     ''capacity_per_year_'' @ [CHR 0xE5, CHR 0x90, CHR 0xA8] @ ''/'' @ [CHR 0xE5, CHR 0xB9, CHR 0xB4]"

definition col_type :: string where
  "col_type = [CHR 0xE7, CHR 0xB1, CHR 0xBB, CHR 0xE5, CHR 0x9E, CHR 0x8B]"

definition col_price :: string where
  "col_price =
     [CHR 0xE6, CHR 0xAF, CHR 0x8F, CHR 0xE5, CHR 0x90, CHR 0xA8, CHR 0xE4, CHR 0xBB, CHR 0xB7,
      CHR 0xE6, CHR 0xA0, CHR 0xBC] @ ''('' @
     [CHR 0xE4, CHR 0xBA, CHR 0xBF, CHR 0xE7, CHR 0xBE, CHR 0x8E, CHR 0xE5, CHR 0x85, CHR 0x83] @
     ''/'' @ [CHR 0xE5, CHR 0x90, CHR 0xA8] @ '')''"

definition type_elevator_avg :: string where
  "type_elevator_avg =
     [CHR 0xE7, CHR 0x94, CHR 0xB5, CHR 0xE6, CHR 0xA2, CHR 0xAF,
      CHR 0xE5, CHR 0xB9, CHR 0xB3, CHR 0xE5, CHR 0x9D, CHR 0x87]"

definition type_ground_avg :: string where
  "type_ground_avg =
     [CHR 0xE5, CHR 0x9C, CHR 0xB0, CHR 0xE9, CHR 0x9D, CHR 0xA2,
      CHR 0xE5, CHR 0xB9, CHR 0xB3, CHR 0xE5, CHR 0x9D, CHR 0x87]"


section \<open>elevator\_ground\_cost.py\<close>

definition C :: real where
  "C = 0.00713"

definition M :: real where
  "M = 125.0"

definition PAYLOAD_TONS :: real where
  "PAYLOAD_TONS = 125.0"



definition is_elevator :: "string \<Rightarrow> bool" where
  "is_elevator name = startswith (lower name) ''space elevator''"

text \<open>
  The two statements of the loop body of \<open>main\<close> that compute a row's cost:
  \<open>cost_launch = C * M * f_total\<close> and \<open>cost_per_ton = cost_launch / PAYLOAD_TONS\<close>.
  The divisor is the constant 125.0, so the division cannot raise.
\<close>

definition cost_per_ton :: "real \<Rightarrow> real" where
  "cost_per_ton f_total = (let cost_launch = C * M * f_total in cost_launch / PAYLOAD_TONS)"

text \<open>
  The loop of \<open>main\<close> over the rows: the state is the pair
  \<open>(elevator_costs, ground_costs)\<close>, and each row appends its cost to one of them.
\<close>

fun classify :: "(string \<times> real) list \<Rightarrow> real list \<times> real list \<Rightarrow> real list \<times> real list" where
  "classify [] (elevator_costs, ground_costs) = (elevator_costs, ground_costs)"
| "classify ((name, f_total) # rows) (elevator_costs, ground_costs) =
     (if is_elevator name
      then classify rows (elevator_costs @ [cost_per_ton f_total], ground_costs)
      else classify rows (elevator_costs, ground_costs @ [cost_per_ton f_total]))"

text \<open>\<open>sum(xs) / len(xs) if xs else 0.0\<close>\<close>

definition average :: "real list \<Rightarrow> py_error + real" where
  "average xs = (if xs \<noteq> [] then truediv (py_sum xs) (of_nat (length xs)) else Inr 0.0)"

definition elevator_avg :: "(string \<times> real) list \<Rightarrow> py_error + real" where
  "elevator_avg rows = average (fst (classify rows ([], [])))"

definition ground_avg :: "(string \<times> real) list \<Rightarrow> py_error + real" where
  "ground_avg rows = average (snd (classify rows ([], [])))"


section \<open>fuel\_calc.py\<close>



































section \<open>water\_schedule\_cost.py\<close>

definition ANNUAL_USE_TONS :: real where
  "ANNUAL_USE_TONS = 1387000.0"

definition RECOVERY_RATE :: real where
  "RECOVERY_RATE = 0.90"

definition DEFICIT_RATE :: real where
  "DEFICIT_RATE = 1.0 - RECOVERY_RATE"

definition RESERVE_FRACTION :: real where
  "RESERVE_FRACTION = 0.50"

definition DAYS_FULL :: int where
  "DAYS_FULL = 102"

definition DAYS_DEFICIT :: int where
  "DAYS_DEFICIT = 263"

definition DAYS_PER_YEAR :: int where
  "DAYS_PER_YEAR = 365"


text \<open>
  \<open>main\<close> after its read, as a function of the two numbers read
  (\<open>cost_per_ton'\<close> is the script's \<open>cost_per_ton\<close>). The result is the data row
  it writes, one field per column of \<open>water_schedule_cost.csv\<close>, before the values
  are formatted. Every divisor is the constant 365, so no division raises.
\<close>

record schedule_row =
  annual_use_tons :: real
  deficit_per_year_tons :: real
  reserve_target_tons :: real
  delivered_full_tons :: real
  delivered_deficit_tons :: real
  total_delivered_tons :: real
  reserve_filled_tons :: real
  remaining_reserve_tons :: real
  cost_per_ton_yi_usd :: real
  total_cost_yi_usd :: real

definition water_schedule :: "real \<Rightarrow> real \<Rightarrow> schedule_row" where
  "water_schedule cost_per_ton' capacity_per_year =
     (let capacity_per_day = capacity_per_year / of_int DAYS_PER_YEAR;
          deficit_per_year = ANNUAL_USE_TONS * DEFICIT_RATE;
          deficit_per_day = deficit_per_year / of_int DAYS_PER_YEAR;
          delivered_full = capacity_per_day * of_int DAYS_FULL;
          deficit_full = deficit_per_day * of_int DAYS_FULL;
          reserve_target = ANNUAL_USE_TONS * RESERVE_FRACTION;
          reserve_filled = py_max (delivered_full - deficit_full) 0.0;
          remaining_reserve = py_max (reserve_target - reserve_filled) 0.0;
          delivered_deficit = deficit_per_day * of_int DAYS_DEFICIT;
          total_delivered = delivered_full + delivered_deficit;
          total_cost = total_delivered * cost_per_ton'
      in \<lparr>annual_use_tons = ANNUAL_USE_TONS,
          deficit_per_year_tons = deficit_per_year,
          reserve_target_tons = reserve_target,
          delivered_full_tons = delivered_full,
          delivered_deficit_tons = delivered_deficit,
          total_delivered_tons = total_delivered,
          reserve_filled_tons = reserve_filled,
          remaining_reserve_tons = remaining_reserve,
          cost_per_ton_yi_usd = cost_per_ton',
          total_cost_yi_usd = total_cost\<rparr>)"


section \<open>plot\_water\_cost.py\<close>

definition ANNUAL_USE_TONS_plot :: real where
  "ANNUAL_USE_TONS_plot = 1387000.0"

definition RECOVERY_RATE_plot :: real where
  "RECOVERY_RATE_plot = 0.90"

definition DEFICIT_RATE_plot :: real where
  "DEFICIT_RATE_plot = 1.0 - RECOVERY_RATE_plot"

definition DAYS_FULL_plot :: nat where
  "DAYS_FULL_plot = 102"

definition DAYS_PER_YEAR_plot :: nat where
  "DAYS_PER_YEAR_plot = 365"

fun read_capacity :: "float_parser \<Rightarrow> dict_row list \<Rightarrow> py_error + real" where
  "read_capacity pf [] = Inl StopIteration"
| "read_capacity pf (row # reader) = float_field pf row col_capacity_per_year"

text \<open>
  \<open>next(r for r in rows if r[col_type] == t)\<close>: the first row of that type; looking the
  column up raises on a row without it, and running out of rows raises
  \<open>StopIteration\<close>.
\<close>

fun first_of_type :: "string \<Rightarrow> dict_row list \<Rightarrow> py_error + dict_row" where
  "first_of_type t [] = Inl StopIteration"
| "first_of_type t (r # rows) =
     (case getitem r col_type of
        Inl e \<Rightarrow> Inl e
      | Inr v \<Rightarrow> if v = Some t then Inr r else first_of_type t rows)"

definition read_costs :: "float_parser \<Rightarrow> dict_row list \<Rightarrow> py_error + real \<times> real" where
  "read_costs pf rows =
     raise_or (first_of_type type_elevator_avg rows) (\<lambda>elevator.
     raise_or (first_of_type type_ground_avg rows) (\<lambda>ground.
     raise_or (float_field pf elevator col_price) (\<lambda>cost_elev.
     raise_or (float_field pf ground col_price) (\<lambda>cost_ground.
     Inr (cost_elev, cost_ground)))))"

text \<open>
  The loop of \<open>cumulative_costs\<close> over the days \<open>d\<close>; the state is the pair of
  lists \<open>(elevator_recovery, ground_recovery)\<close>, and \<open>xs[-1]\<close> is the last element
  of a list that starts as \<open>[0.0]\<close> and only grows.
\<close>

fun day_loop ::
  "real \<Rightarrow> real \<Rightarrow> real \<Rightarrow> real \<Rightarrow> nat list \<Rightarrow> real list \<times> real list \<Rightarrow> real list \<times> real list" where
  "day_loop capacity_per_day deficit_per_day cost_elev cost_ground []
     (elevator_recovery, ground_recovery) = (elevator_recovery, ground_recovery)"
| "day_loop capacity_per_day deficit_per_day cost_elev cost_ground (d # days)
     (elevator_recovery, ground_recovery) =
     (if d \<le> DAYS_FULL_plot
      then day_loop capacity_per_day deficit_per_day cost_elev cost_ground days
             (elevator_recovery @ [last elevator_recovery + capacity_per_day * cost_elev],
              ground_recovery @ [last ground_recovery + capacity_per_day * cost_ground])
      else day_loop capacity_per_day deficit_per_day cost_elev cost_ground days
             (elevator_recovery @ [last elevator_recovery + deficit_per_day * cost_elev],
              ground_recovery @ [last ground_recovery + deficit_per_day * cost_ground]))"

text \<open>
  \<open>cumulative_costs\<close> after its two reads, as a function of the three numbers read:
  the result is \<open>(days, elevator_recovery, ground_recovery)\<close>.
\<close>

definition cumulative_series :: "real \<Rightarrow> real \<Rightarrow> real \<Rightarrow> nat list \<times> real list \<times> real list" where
  "cumulative_series capacity_per_year cost_elev cost_ground =
     (let capacity_per_day = capacity_per_year / of_nat DAYS_PER_YEAR_plot;
          deficit_per_day = (ANNUAL_USE_TONS_plot * DEFICIT_RATE_plot) / of_nat DAYS_PER_YEAR_plot;
          days = [0 ..< DAYS_PER_YEAR_plot + 1];
          (elevator_recovery, ground_recovery) =
             day_loop capacity_per_day deficit_per_day cost_elev cost_ground
               [1 ..< DAYS_PER_YEAR_plot + 1] ([0.0], [0.0])
      in (days, elevator_recovery, ground_recovery))"

definition cumulative_costs ::
  "float_parser \<Rightarrow> dict_row list \<Rightarrow> dict_row list \<Rightarrow> py_error + nat list \<times> real list \<times> real list" where
  "cumulative_costs pf water_cost_rows cost_rows =
     raise_or (read_capacity pf water_cost_rows) (\<lambda>capacity_per_year.
     raise_or (read_costs pf cost_rows) (\<lambda>(cost_elev, cost_ground).
     Inr (cumulative_series capacity_per_year cost_elev cost_ground)))"

text \<open>The two series of a run, by name.\<close>

definition elevator_series :: "real \<Rightarrow> real \<Rightarrow> real \<Rightarrow> real list" where
  "elevator_series capacity_per_year cost_elev cost_ground =
     fst (snd (cumulative_series capacity_per_year cost_elev cost_ground))"

definition ground_series :: "real \<Rightarrow> real \<Rightarrow> real \<Rightarrow> real list" where
  "ground_series capacity_per_year cost_elev cost_ground =
     snd (snd (cumulative_series capacity_per_year cost_elev cost_ground))"


section \<open>Example inputs\<close>






section \<open>Properties of elevator\_ground\_cost.py\<close>

lemma classify_filter:
  "classify rows (es, gs) =
     (es @ map (cost_per_ton \<circ> snd) (filter (is_elevator \<circ> fst) rows),
      gs @ map (cost_per_ton \<circ> snd) (filter (Not \<circ> is_elevator \<circ> fst) rows))"
  by (induction rows arbitrary: es gs) auto

lemma average_total: "\<exists>v. average xs = Inr v"
  by (cases xs) (simp_all add: average_def truediv_def)



lemma not_elevator_Kourou: "\<not> is_elevator ''Kourou''"
  by code_simp

lemma is_elevator_example: "is_elevator ''Space Elevator A''"
  by code_simp

lemma ground_avg_Kourou: "ground_avg [(''Kourou'', 3)] = Inr 0.02139"
  by code_simp

text \<open>
  C9. When a class has no rows its average is \<open>0.0\<close> and not an error; and
  whatever the rows are, neither average raises: the division is only reached with a
  divisor \<open>len(xs) > 0\<close>.
\<close>

theorem empty_class_average_zero:
  "((\<forall>r \<in> set rows. \<not> is_elevator (fst r)) \<longrightarrow> elevator_avg rows = Inr 0) \<and>
   ((\<forall>r \<in> set rows. is_elevator (fst r)) \<longrightarrow> ground_avg rows = Inr 0) \<and>
   (\<exists>e g. elevator_avg rows = Inr e \<and> ground_avg rows = Inr g)"
proof -
  have e: "filter (is_elevator \<circ> fst) rows = []" if "\<forall>r \<in> set rows. \<not> is_elevator (fst r)"
    using that by (simp add: filter_empty_conv)
  have g: "filter (Not \<circ> is_elevator \<circ> fst) rows = []" if "\<forall>r \<in> set rows. is_elevator (fst r)"
    using that by (simp add: filter_empty_conv)
  show ?thesis
    using e g average_total [of "fst (classify rows ([], []))"]
      average_total [of "snd (classify rows ([], []))"]
    by (auto simp: elevator_avg_def ground_avg_def classify_filter average_def)
qed

theorem empty_class_average_zero_witness:
  "\<not> is_elevator ''Kourou'' \<and> elevator_avg [(''Kourou'', 3)] = Inr 0 \<and>
   ground_avg [(''Kourou'', 3)] = Inr 0.02139 \<and>
   is_elevator ''Space Elevator A'' \<and> ground_avg [(''Space Elevator A'', 2)] = Inr 0 \<and>
   elevator_avg [] = Inr 0 \<and> ground_avg [] = Inr 0"
  using empty_class_average_zero [of "[(''Kourou'', 3)]"]
    empty_class_average_zero [of "[(''Space Elevator A'', 2)]"]
    empty_class_average_zero [of "[]"]
    not_elevator_Kourou is_elevator_example ground_avg_Kourou
  by simp

section \<open>Properties of fuel\_calc.py\<close>










section \<open>Properties of water\_schedule\_cost.py\<close>

text \<open>
  C6. For every cost per ton and capacity read: the total delivered is the sum of the two
  phases' deliveries and does not depend on the cost; the total cost is the total
  delivered times the cost per ton; hence, with the capacity fixed, the total cost is
  linear in the cost per ton (it scales with any factor, adds over sums, and doubling the
  cost doubles it).
\<close>

theorem schedule_totals_linear:
  "total_delivered_tons (water_schedule c cap) =
     delivered_full_tons (water_schedule c cap) + delivered_deficit_tons (water_schedule c cap) \<and>
   total_cost_yi_usd (water_schedule c cap) = total_delivered_tons (water_schedule c cap) * c \<and>
   total_delivered_tons (water_schedule c' cap) = total_delivered_tons (water_schedule c cap) \<and>
   total_cost_yi_usd (water_schedule (k * c) cap) = k * total_cost_yi_usd (water_schedule c cap) \<and>
   total_cost_yi_usd (water_schedule (c + c') cap) =
     total_cost_yi_usd (water_schedule c cap) + total_cost_yi_usd (water_schedule c' cap) \<and>
   total_cost_yi_usd (water_schedule (2 * c) cap) = 2 * total_cost_yi_usd (water_schedule c cap)"
  by (simp add: water_schedule_def Let_def algebra_simps)

theorem schedule_totals_linear_witness:
  "total_delivered_tons (water_schedule 0.03 5000000) = 5000000 / 365 * 102 + 138700 / 365 * 263 \<and>
   total_cost_yi_usd (water_schedule 0.03 5000000) = (5000000 / 365 * 102 + 138700 / 365 * 263) * 0.03 \<and>
   total_cost_yi_usd (water_schedule 0.06 5000000) = 2 * total_cost_yi_usd (water_schedule 0.03 5000000)"
  using schedule_totals_linear [of "0.03" 5000000 "0.03" 2]
  by (simp add: water_schedule_def Let_def ANNUAL_USE_TONS_def DEFICIT_RATE_def RECOVERY_RATE_def
      DAYS_PER_YEAR_def DAYS_FULL_def DAYS_DEFICIT_def)

text \<open>
  C7. For every input the reserve filled and the remaining reserve are clamped at 0:
  \<open>reserve_filled = max(delivered_full - deficit_full, 0)\<close> and
  \<open>remaining_reserve = max(reserve_target - reserve_filled, 0)\<close>, where
  \<open>deficit_full\<close> is 102 days of the daily deficit (10% of the annual use over 365
  days) and the reserve target is 50% of the annual use.
\<close>

theorem reserve_never_negative:
  "0 \<le> reserve_filled_tons (water_schedule c cap) \<and>
   0 \<le> remaining_reserve_tons (water_schedule c cap) \<and>
   reserve_filled_tons (water_schedule c cap) =
     max (delivered_full_tons (water_schedule c cap) - 1387000 * 0.10 / 365 * 102) 0 \<and>
   remaining_reserve_tons (water_schedule c cap) =
     max (reserve_target_tons (water_schedule c cap) - reserve_filled_tons (water_schedule c cap)) 0 \<and>
   reserve_target_tons (water_schedule c cap) = 0.50 * 1387000 \<and>
   delivered_full_tons (water_schedule c cap) = cap / 365 * 102"
  by (simp add: water_schedule_def Let_def py_max_def max_def ANNUAL_USE_TONS_def DEFICIT_RATE_def
      RECOVERY_RATE_def RESERVE_FRACTION_def DAYS_PER_YEAR_def DAYS_FULL_def)

theorem reserve_never_negative_witness:
  "reserve_filled_tons (water_schedule 0.03 0) = 0 \<and>
   remaining_reserve_tons (water_schedule 0.03 0) = 693500 \<and>
   reserve_filled_tons (water_schedule 0.03 5000000) = 5000000 / 365 * 102 - 138700 / 365 * 102 \<and>
   remaining_reserve_tons (water_schedule 0.03 5000000) = 0 \<and>
   reserve_filled_tons (water_schedule 0.03 (-365)) = 0"
  using reserve_never_negative [of "0.03" 0] reserve_never_negative [of "0.03" 5000000]
    reserve_never_negative [of "0.03" "-365"]
  by simp


section \<open>Properties of plot\_water\_cost.py\<close>

lemma day_loop_append:
  "\<exists>xs ys. day_loop a b ce cg ds (er, gr) = (er @ xs, gr @ ys) \<and>
     length xs = length ds \<and> length ys = length ds"
proof (induction ds arbitrary: er gr)
  case Nil
  then show ?case by simp
next
  case (Cons d ds)
  show ?case
  proof (cases "d \<le> DAYS_FULL_plot")
    case True
    from Cons [of "er @ [last er + a * ce]" "gr @ [last gr + a * cg]"]
    obtain xs ys where "day_loop a b ce cg ds (er @ [last er + a * ce], gr @ [last gr + a * cg]) =
       ((er @ [last er + a * ce]) @ xs, (gr @ [last gr + a * cg]) @ ys)"
      "length xs = length ds" "length ys = length ds" by blast
    with True show ?thesis by simp
  next
    case False
    from Cons [of "er @ [last er + b * ce]" "gr @ [last gr + b * cg]"]
    obtain xs ys where "day_loop a b ce cg ds (er @ [last er + b * ce], gr @ [last gr + b * cg]) =
       ((er @ [last er + b * ce]) @ xs, (gr @ [last gr + b * cg]) @ ys)"
      "length xs = length ds" "length ys = length ds" by blast
    with False show ?thesis by simp
  qed
qed

lemma sorted_le_last:
  "sorted (xs :: real list) \<Longrightarrow> x \<in> set xs \<Longrightarrow> x \<le> last xs"
  by (induction xs) auto

lemma sorted_snoc_last:
  "sorted (xs :: real list) \<Longrightarrow> xs \<noteq> [] \<Longrightarrow> last xs \<le> y \<Longrightarrow> sorted (xs @ [y])"
  using sorted_le_last [of xs] by (fastforce simp: sorted_append)

lemma day_loop_sorted_fst:
  "sorted er \<Longrightarrow> er \<noteq> [] \<Longrightarrow> 0 \<le> a * ce \<Longrightarrow> 0 \<le> b * ce \<Longrightarrow>
   sorted (fst (day_loop a b ce cg ds (er, gr)))"
proof (induction ds arbitrary: er gr)
  case Nil
  then show ?case by simp
next
  case (Cons d ds)
  have 1: "sorted (er @ [last er + a * ce])" "sorted (er @ [last er + b * ce])"
    using Cons.prems by (simp_all add: sorted_snoc_last)
  show ?case
    using Cons.IH [OF 1(1)] Cons.IH [OF 1(2)] Cons.prems by simp
qed

lemma day_loop_sorted_snd:
  "sorted gr \<Longrightarrow> gr \<noteq> [] \<Longrightarrow> 0 \<le> a * cg \<Longrightarrow> 0 \<le> b * cg \<Longrightarrow>
   sorted (snd (day_loop a b ce cg ds (er, gr)))"
proof (induction ds arbitrary: er gr)
  case Nil
  then show ?case by simp
next
  case (Cons d ds)
  have 1: "sorted (gr @ [last gr + a * cg])" "sorted (gr @ [last gr + b * cg])"
    using Cons.prems by (simp_all add: sorted_snoc_last)
  show ?case
    using Cons.IH [OF 1(1)] Cons.IH [OF 1(2)] Cons.prems by simp
qed



lemma series_shape:
  "\<exists>xs ys. cumulative_series cap ce cg = ([0 ..< 366], 0 # xs, 0 # ys) \<and>
     length xs = 365 \<and> length ys = 365"
proof -
  obtain xs ys where
    "day_loop (cap / 365) (ANNUAL_USE_TONS_plot * DEFICIT_RATE_plot / 365) ce cg [1 ..< 366] ([0], [0]) =
       ([0] @ xs, [0] @ ys)" "length xs = length [1 ..< 366 :: nat]" "length ys = length [1 ..< 366 :: nat]"
    using day_loop_append by blast
  then show ?thesis
    by (simp add: cumulative_series_def DAYS_PER_YEAR_plot_def)
qed

lemma day_loop_first:
  "day_loop a b ce cg (Suc 0 # ds) ([0], [0]) = day_loop a b ce cg ds ([0, a * ce], [0, a * cg])"
  by (simp add: DAYS_FULL_plot_def)

lemma day_loop_second:
  "\<exists>xs ys. day_loop a b ce cg [Suc 0 ..< 366] ([0], [0]) = (0 # a * ce # xs, 0 # a * cg # ys)"
proof -
  define ds :: "nat list" where "ds = [Suc (Suc 0) ..< 366]"
  have u: "[Suc 0 ..< 366] = Suc 0 # ds"
    unfolding ds_def by (rule upt_conv_Cons) simp
  obtain xs ys where
    "day_loop a b ce cg ds ([0, a * ce], [0, a * cg]) = ([0, a * ce] @ xs, [0, a * cg] @ ys)"
    using day_loop_append by blast
  then show ?thesis
    unfolding u day_loop_first by simp
qed

lemma series_second:
  "elevator_series cap ce cg ! Suc 0 = cap / 365 * ce"
  "ground_series cap ce cg ! Suc 0 = cap / 365 * cg"
  using day_loop_second [of "cap / 365" "ANNUAL_USE_TONS_plot * DEFICIT_RATE_plot / 365" ce cg]
  by (auto simp: elevator_series_def ground_series_def cumulative_series_def
      DAYS_PER_YEAR_plot_def)

lemma series_sorted:
  "0 \<le> cap \<Longrightarrow> 0 \<le> ce \<Longrightarrow> sorted (elevator_series cap ce cg)"
  "0 \<le> cap \<Longrightarrow> 0 \<le> cg \<Longrightarrow> sorted (ground_series cap ce cg)"
  by (simp_all add: elevator_series_def ground_series_def cumulative_series_def split_beta
      day_loop_sorted_fst day_loop_sorted_snd ANNUAL_USE_TONS_plot_def DEFICIT_RATE_plot_def
      RECOVERY_RATE_plot_def)

lemma series_first:
  "elevator_series cap ce cg ! 0 = 0" "ground_series cap ce cg ! 0 = 0"
  using series_shape [of cap ce cg] by (auto simp: elevator_series_def ground_series_def)

text \<open>
  C8, as the code has it. For every capacity and pair of costs the day list is
  \<open>0..365\<close> and each series has 366 entries and starts at 0. A series is
  non-decreasing when the capacity and its cost per ton are not negative; nothing in the
  script rejects a negative number, and with one the series falls (the counterexample).
\<close>

theorem series_length_monotone:
  "fst (cumulative_series cap ce cg) = [0 ..< 366] \<and>
   length (elevator_series cap ce cg) = 366 \<and> length (ground_series cap ce cg) = 366 \<and>
   elevator_series cap ce cg ! 0 = 0 \<and> ground_series cap ce cg ! 0 = 0 \<and>
   (0 \<le> cap \<and> 0 \<le> ce \<longrightarrow>
      (\<forall>d < 365. elevator_series cap ce cg ! d \<le> elevator_series cap ce cg ! (d + 1))) \<and>
   (0 \<le> cap \<and> 0 \<le> cg \<longrightarrow>
      (\<forall>d < 365. ground_series cap ce cg ! d \<le> ground_series cap ce cg ! (d + 1)))"
proof -
  obtain xs ys where s: "cumulative_series cap ce cg = ([0 ..< 366], 0 # xs, 0 # ys)"
    "length xs = 365" "length ys = 365"
    using series_shape by blast
  have len: "length (elevator_series cap ce cg) = 366" "length (ground_series cap ce cg) = 366"
    using s by (simp_all add: elevator_series_def ground_series_def)
  have e: "elevator_series cap ce cg ! d \<le> elevator_series cap ce cg ! (d + 1)"
    if "0 \<le> cap \<and> 0 \<le> ce" "d < 365" for d
    using that len series_sorted(1) [of cap ce cg] by (intro sorted_nth_mono) simp_all
  have g: "ground_series cap ce cg ! d \<le> ground_series cap ce cg ! (d + 1)"
    if "0 \<le> cap \<and> 0 \<le> cg" "d < 365" for d
    using that len series_sorted(2) [of cap cg ce] by (intro sorted_nth_mono) simp_all
  show ?thesis
    using s len e g by (simp add: elevator_series_def ground_series_def)
qed

theorem series_length_monotone_witness:
  "length (elevator_series 365 2 3) = 366 \<and> length (ground_series 365 2 3) = 366 \<and>
   elevator_series 365 2 3 ! 0 = 0 \<and> elevator_series 365 2 3 ! 1 = 2 \<and>
   ground_series 365 2 3 ! 0 = 0 \<and> ground_series 365 2 3 ! 1 = 3 \<and>
   elevator_series 365 2 3 ! 364 \<le> elevator_series 365 2 3 ! 365 \<and>
   ground_series 365 2 3 ! 364 \<le> ground_series 365 2 3 ! 365"
proof -
  note t = series_length_monotone [of 365 2 3]
  from t have m: "\<forall>d < 365. elevator_series 365 2 3 ! d \<le> elevator_series 365 2 3 ! (d + 1)"
    "\<forall>d < 365. ground_series 365 2 3 ! d \<le> ground_series 365 2 3 ! (d + 1)"
    by simp_all
  from m(1) [rule_format, of 364] m(2) [rule_format, of 364] t show ?thesis
    by (simp add: series_second)
qed

text \<open>
  The claim C8 as stated, for every capacity and cost read, fails: a capacity of 365 tons
  per year and an elevator cost of -1 per ton give the elevator series 0, -1, ...
\<close>

theorem series_decreasing_counterexample:
  "elevator_series 365 (-1) 1 ! 1 < elevator_series 365 (-1) 1 ! 0"
  by (simp add: series_second series_first)




section \<open>Properties of the loaders\<close>

















end
